theory Spec2Isabelle
  imports Main
begin

section \<open>Python values, exceptions and dictionaries\<close>

text \<open>
  The request parameters of the InfrastructureManager are arbitrary Python objects (a dict
  handed in by the caller, or whatever \<open>json.loads\<close> decodes). A float is a mantissa and
  a binary exponent, or one of the three special values JSON admits.
\<close>

datatype pyfloat = Finite int int | PosInf | NegInf | NaN

datatype pyval =
    PNone
  | PBool bool
  | PInt int
  | PFloat pyfloat
  | PStr string
  | PList "pyval list"
  | PDict "(string \<times> pyval) list"

text \<open>
  The exceptions the orchestrator names (the two agent exceptions of
  \<open>appscale.tools.agents.base_agent\<close>), the built-in ones its own statements raise, and
  \<open>OtherError\<close> for anything else a collaborator may raise.
\<close>

datatype exn =
    AgentConfigurationException string
  | AgentRuntimeException string
  | TypeError string
  | ValueError string
  | KeyError string
  | OverflowError string
  | OtherError string

text \<open>\<open>str(exception)\<close>: the message the exception was raised with.\<close>

fun str_exn :: "exn \<Rightarrow> string" where
  "str_exn (AgentConfigurationException m) = m"
| "str_exn (AgentRuntimeException m) = m"
| "str_exn (TypeError m) = m"
| "str_exn (ValueError m) = m"
| "str_exn (KeyError m) = m"
| "str_exn (OverflowError m) = m"
| "str_exn (OtherError m) = m"

text \<open>
  The clause \<open>except (AgentConfigurationException, AgentRuntimeException)\<close> of
  \<open>__describe_vms\<close> and \<open>__spawn_vms\<close>, and the clause \<open>except AgentRuntimeException\<close>
  of \<open>__kill_vms\<close>.
\<close>

fun is_agent_exception :: "exn \<Rightarrow> bool" where
  "is_agent_exception (AgentConfigurationException m) = True"
| "is_agent_exception (AgentRuntimeException m) = True"
| "is_agent_exception e = False"

fun is_agent_runtime_exception :: "exn \<Rightarrow> bool" where
  "is_agent_runtime_exception (AgentRuntimeException m) = True"
| "is_agent_runtime_exception e = False"

text \<open>
  The dictionaries the orchestrator builds itself (responses and status records) have
  string keys: \<open>d[k] = v\<close> is \<open>d(k \<mapsto> v)\<close>.
\<close>

type_synonym pydict = "string \<rightharpoonup> pyval"

text \<open>\<open>parameters[key]\<close> on whatever object \<open>parameters\<close> is.\<close>

fun py_getitem :: "pyval \<Rightarrow> string \<Rightarrow> exn + pyval" where
  "py_getitem (PDict d) k =
     (case map_of d k of None \<Rightarrow> Inl (KeyError k) | Some v \<Rightarrow> Inr v)"
| "py_getitem v k = Inl (TypeError ''object is not subscriptable by a str key'')"

subsection \<open>The built-in \<open>int()\<close>\<close>

definition is_space :: "char \<Rightarrow> bool" where
  "is_space c = (c \<in> set [CHR '' '', CHR 0x09, CHR 0x0A, CHR 0x0B, CHR 0x0C, CHR 0x0D])"

definition digit_val :: "char \<Rightarrow> int option" where
  "digit_val c =
     (let n = (of_char c :: nat) in
      if 48 \<le> n \<and> n \<le> 57 then Some (int n - 48) else None)"

fun digits_val :: "int \<Rightarrow> string \<Rightarrow> int option" where
  "digits_val acc [] = Some acc"
| "digits_val acc (c # cs) =
     (case digit_val c of None \<Rightarrow> None | Some d \<Rightarrow> digits_val (10 * acc + d) cs)"

definition unsigned_val :: "string \<Rightarrow> int option" where
  "unsigned_val ds = (if ds = [] then None else digits_val 0 ds)"

definition strip :: "string \<Rightarrow> string" where
  "strip s = rev (dropWhile is_space (rev (dropWhile is_space s)))"

definition int_of_str :: "string \<Rightarrow> exn + int" where
  "int_of_str s =
     (case (case strip s of
              c # ds \<Rightarrow>
                (if c = CHR ''-'' then map_option uminus (unsigned_val ds)
                 else if c = CHR ''+'' then unsigned_val ds
                 else unsigned_val (c # ds))
            | [] \<Rightarrow> None) of
        None \<Rightarrow> Inl (ValueError ''invalid literal for int() with base 10'')
      | Some n \<Rightarrow> Inr n)"

text \<open>
  A float is truncated towards zero; \<open>int()\<close> raises \<open>ValueError\<close> on a NaN and
  \<open>OverflowError\<close> on an infinity.
\<close>

fun int_of_float :: "pyfloat \<Rightarrow> exn + int" where
  "int_of_float (Finite m e) =
     (if 0 \<le> e then Inr (m * 2 ^ nat e)
      else if 0 \<le> m then Inr (m div 2 ^ nat (- e))
      else Inr (- ((- m) div 2 ^ nat (- e))))"
| "int_of_float NaN = Inl (ValueError ''cannot convert float NaN to integer'')"
| "int_of_float f = Inl (OverflowError ''cannot convert float infinity to integer'')"

fun py_int :: "pyval \<Rightarrow> exn + int" where
  "py_int (PInt n) = Inr n"
| "py_int (PBool b) = Inr (if b then 1 else 0)"
| "py_int (PFloat f) = int_of_float f"
| "py_int (PStr s) = int_of_str s"
| "py_int v = Inl (TypeError ''int() argument must be a string or a number'')"

section \<open>The Operation Store\<close>

text \<open>
  Modelled from the spec: the class \<open>PersistentDictionary\<close> of \<open>utils.persistent_dictionary\<close>,
  which the manager only uses through \<open>put\<close>, \<open>get\<close> and \<open>has_key\<close>. The spec gives the
  Operation Store as a persistent mapping from operation identifier to record with
  \<open>get(operation_id) \<rightarrow> record | not_found\<close>, \<open>put(operation_id, record)\<close> and
  \<open>has(operation_id) \<rightarrow> bool\<close>; a record read from it is a value of its own.
\<close>

type_synonym persistent_dictionary = "string \<rightharpoonup> pydict"

definition put :: "persistent_dictionary \<Rightarrow> string \<Rightarrow> pydict \<Rightarrow> persistent_dictionary" where
  "put store key val = store(key \<mapsto> val)"

definition get :: "persistent_dictionary \<Rightarrow> string \<Rightarrow> pydict option" where
  "get store key = store key"

definition has_key :: "persistent_dictionary \<Rightarrow> string \<Rightarrow> bool" where
  "has_key store key = (store key \<noteq> None)"

section \<open>The cloud agent and the state of the system\<close>

text \<open>
  The agent is the class \<open>BaseAgent\<close> of another package: its methods are parameters of
  the model. A call acts on the state \<open>'b\<close> of the cloud backend and returns a value or
  raises; the backend state after a call that raised is given as well, since instances
  may have been started before the error. The inventories are lists of strings.
\<close>

datatype operation = OPERATION_RUN | OPERATION_TERMINATE

type_synonym triple = "string list \<times> string list \<times> string list"

record 'b agent =
  agent_assert_required_parameters :: "pyval \<Rightarrow> operation \<Rightarrow> 'b \<Rightarrow> (exn + unit) \<times> 'b"
  agent_configure_instance_security :: "pyval \<Rightarrow> 'b \<Rightarrow> (exn + pyval) \<times> 'b"
  agent_run_instances :: "int \<Rightarrow> pyval \<Rightarrow> pyval \<Rightarrow> bool \<Rightarrow> 'b \<Rightarrow> (exn + triple) \<times> 'b"
  agent_describe_instances :: "pyval \<Rightarrow> 'b \<Rightarrow> (exn + triple) \<times> 'b"
  agent_terminate_instances :: "pyval \<Rightarrow> 'b \<Rightarrow> (exn + unit) \<times> 'b"
  agent_attach_disk :: "pyval \<Rightarrow> pyval \<Rightarrow> pyval \<Rightarrow> 'b \<Rightarrow> (exn + pyval) \<times> 'b"
  agent_diff :: "string list \<Rightarrow> string list \<Rightarrow> string list"

text \<open>
  A worker started by \<open>thread.start_new_thread\<close> and not yet run: the function and its
  arguments.
\<close>

datatype 'b task =
    Spawn "'b agent" int pyval string
  | Kill "'b agent" pyval string

record 'b sys =
  operation_ids :: persistent_dictionary
  backend :: 'b
  threads :: "'b task list"

section \<open>The workers\<close>

definition STATE_PENDING :: string where "STATE_PENDING = ''pending''"
definition STATE_SUCCESS :: string where "STATE_SUCCESS = ''success''"
definition STATE_FAILED :: string where "STATE_FAILED = ''failed''"

text \<open>The dictionary stored under \<open>'vm_info'\<close>.\<close>

definition vm_info :: "string list \<Rightarrow> string list \<Rightarrow> string list \<Rightarrow> pyval" where
  "vm_info public_ips private_ips instance_ids =
     PDict [(''public_ips'', PList (map PStr public_ips)),
            (''private_ips'', PList (map PStr private_ips)),
            (''instance_ids'', PList (map PStr instance_ids))]"

text \<open>
  \<open>__describe_vms\<close>: the agent's inventory, or three empty lists when the agent raises
  one of its two exceptions.
\<close>

definition describe_vms :: "'b agent \<Rightarrow> pyval \<Rightarrow> 'b \<Rightarrow> (exn + triple) \<times> 'b" where
  "describe_vms agent parameters b =
     (case agent_describe_instances agent parameters b of
        (Inr inventory, b') \<Rightarrow> (Inr inventory, b')
      | (Inl exception, b') \<Rightarrow>
          (if is_agent_exception exception then (Inr ([], [], []), b')
           else (Inl exception, b')))"

text \<open>
  Item assignments on the object \<open>operation_ids.get\<close> returned: on \<open>None\<close> the first
  assignment raises \<open>TypeError\<close>.
\<close>

definition setitems :: "pydict option \<Rightarrow> (string \<times> pyval) list \<Rightarrow> exn + pydict" where
  "setitems status_info kvs =
     (case status_info of
        None \<Rightarrow> Inl (TypeError ''NoneType object does not support item assignment'')
      | Some d \<Rightarrow> Inr (fold (\<lambda>(k, v) d. d(k \<mapsto> v)) kvs d))"

text \<open>
  The \<open>except\<close> clause of \<open>__spawn_vms\<close>, run at backend state \<open>b\<close> for the caught
  \<open>exception\<close>, up to the record that is to be stored.
\<close>

definition spawn_vms_except ::
  "'b agent \<Rightarrow> pyval \<Rightarrow> pydict option \<Rightarrow> triple \<Rightarrow> exn \<Rightarrow> 'b \<Rightarrow> (exn + pydict) \<times> 'b" where
  "spawn_vms_except agent parameters status_info active exception b =
     (case active of (active_public_ips, active_private_ips, active_instances) \<Rightarrow>
      (case describe_vms agent parameters b of
         (Inl e, b') \<Rightarrow> (Inl e, b')
       | (Inr (public_ips, private_ips, instance_ids), b') \<Rightarrow>
           (let public_ips = agent_diff agent public_ips active_public_ips in
            if public_ips \<noteq> [] then
              (let private_ips = agent_diff agent private_ips active_private_ips;
                   instance_ids = agent_diff agent instance_ids active_instances
               in (setitems status_info
                     [(''state'', PStr STATE_SUCCESS),
                      (''vm_info'', vm_info public_ips private_ips instance_ids),
                      (''success'', PBool False),
                      (''reason'', PStr (str_exn exception))], b'))
            else
              (setitems status_info
                 [(''state'', PStr STATE_FAILED),
                  (''success'', PBool False),
                  (''reason'', PStr (str_exn exception))], b'))))"

text \<open>
  The \<open>try\<close> statement of \<open>__spawn_vms\<close> with its \<open>except\<close> clause, run at backend
  state \<open>b\<close> with the baseline \<open>active\<close>.
\<close>

definition spawn_vms_try ::
  "'b agent \<Rightarrow> int \<Rightarrow> pyval \<Rightarrow> pydict option \<Rightarrow> triple \<Rightarrow> 'b \<Rightarrow> (exn + pydict) \<times> 'b" where
  "spawn_vms_try agent num_vms parameters status_info active b =
     (case agent_configure_instance_security agent parameters b of
        (Inl e, b2) \<Rightarrow>
          (if is_agent_exception e
           then spawn_vms_except agent parameters status_info active e b2
           else (Inl e, b2))
      | (Inr security_configured, b2) \<Rightarrow>
          (case agent_run_instances agent num_vms parameters security_configured False b2 of
             (Inl e, b3) \<Rightarrow>
               (if is_agent_exception e
                then spawn_vms_except agent parameters status_info active e b3
                else (Inl e, b3))
           | (Inr (ids, public_ips, private_ips), b3) \<Rightarrow>
               (setitems status_info
                  [(''state'', PStr STATE_SUCCESS),
                   (''vm_info'', vm_info public_ips private_ips ids)], b3)))"

text \<open>
  \<open>__spawn_vms\<close> up to its last statement: the record read, the baseline, the
  \<open>try\<close> statement. The result is the record to be stored, or the exception that
  leaves the worker.
\<close>

definition spawn_vms_status ::
  "'b agent \<Rightarrow> int \<Rightarrow> pyval \<Rightarrow> string \<Rightarrow> persistent_dictionary \<Rightarrow> 'b \<Rightarrow> (exn + pydict) \<times> 'b" where
  "spawn_vms_status agent num_vms parameters operation_id store b =
     (let status_info = get store operation_id in
      case describe_vms agent parameters b of
        (Inl e, b1) \<Rightarrow> (Inl e, b1)
      | (Inr active, b1) \<Rightarrow> spawn_vms_try agent num_vms parameters status_info active b1)"

text \<open>\<open>__spawn_vms\<close>: the final \<open>put\<close> is reached unless an exception left the worker.\<close>

definition spawn_vms :: "'b agent \<Rightarrow> int \<Rightarrow> pyval \<Rightarrow> string \<Rightarrow> 'b sys \<Rightarrow> (exn + unit) \<times> 'b sys" where
  "spawn_vms agent num_vms parameters operation_id st =
     (case spawn_vms_status agent num_vms parameters operation_id (operation_ids st) (backend st) of
        (Inl e, b') \<Rightarrow> (Inl e, st\<lparr>backend := b'\<rparr>)
      | (Inr status_info, b') \<Rightarrow>
          (Inr (), st\<lparr>operation_ids := put (operation_ids st) operation_id status_info,
                      backend := b'\<rparr>))"

text \<open>\<open>__kill_vms\<close> up to its last statement, and as a whole.\<close>

definition kill_vms_status ::
  "'b agent \<Rightarrow> pyval \<Rightarrow> string \<Rightarrow> persistent_dictionary \<Rightarrow> 'b \<Rightarrow> (exn + pydict) \<times> 'b" where
  "kill_vms_status agent parameters operation_id store b =
     (let status_info = get store operation_id in
      case agent_terminate_instances agent parameters b of
        (Inr u, b') \<Rightarrow> (setitems status_info [(''state'', PStr STATE_SUCCESS)], b')
      | (Inl e, b') \<Rightarrow>
          (if is_agent_runtime_exception e
           then (setitems status_info
                   [(''state'', PStr STATE_FAILED), (''reason'', PStr (str_exn e))], b')
           else (Inl e, b')))"

definition kill_vms :: "'b agent \<Rightarrow> pyval \<Rightarrow> string \<Rightarrow> 'b sys \<Rightarrow> (exn + unit) \<times> 'b sys" where
  "kill_vms agent parameters operation_id st =
     (case kill_vms_status agent parameters operation_id (operation_ids st) (backend st) of
        (Inl e, b') \<Rightarrow> (Inl e, st\<lparr>backend := b'\<rparr>)
      | (Inr status_info, b') \<Rightarrow>
          (Inr (), st\<lparr>operation_ids := put (operation_ids st) operation_id status_info,
                      backend := b'\<rparr>))"

section \<open>The InfrastructureManager\<close>

text \<open>
  The fields \<open>__init__\<close> sets, and the functions of the modules that are not part of
  the class: \<open>agent_factory.create_agent\<close>, \<open>utils.has_parameter\<close> and \<open>json.loads\<close>
  are parameters of the model. \<open>utils.log\<close> only writes to the log and is left out.
  The value \<open>utils.get_random_alphanumeric()\<close> returns is an argument of the call that
  draws it.
\<close>

record 'b manager =
  blocking :: bool
  secret :: string
  create_agent :: "pyval \<Rightarrow> exn + 'b agent"
  has_parameter :: "string \<Rightarrow> pyval \<Rightarrow> exn + bool"
  json_loads :: "string \<Rightarrow> exn + pyval"

definition REASON_BAD_SECRET :: string where "REASON_BAD_SECRET = ''bad secret''"
definition REASON_BAD_VM_COUNT :: string where "REASON_BAD_VM_COUNT = ''bad vm count''"
definition REASON_OPERATION_ID_NOT_FOUND :: string where
  "REASON_OPERATION_ID_NOT_FOUND = ''operation_id not found''"
definition REASON_NONE :: string where "REASON_NONE = ''none''"

definition PARAM_OPERATION_ID :: string where "PARAM_OPERATION_ID = ''operation_id''"
definition PARAM_INFRASTRUCTURE :: string where "PARAM_INFRASTRUCTURE = ''infrastructure''"
definition PARAM_NUM_VMS :: string where "PARAM_NUM_VMS = ''num_vms''"

definition DESCRIBE_INSTANCES_REQUIRED_PARAMS :: "string list" where
  "DESCRIBE_INSTANCES_REQUIRED_PARAMS = [PARAM_OPERATION_ID]"
definition RUN_INSTANCES_REQUIRED_PARAMS :: "string list" where
  "RUN_INSTANCES_REQUIRED_PARAMS = [PARAM_INFRASTRUCTURE, PARAM_NUM_VMS]"
definition TERMINATE_INSTANCES_REQUIRED_PARAMS :: "string list" where
  "TERMINATE_INSTANCES_REQUIRED_PARAMS = [PARAM_INFRASTRUCTURE]"

text \<open>\<open>__generate_response\<close>.\<close>

definition generate_response :: "bool \<Rightarrow> string \<Rightarrow> pydict option \<Rightarrow> pydict" where
  "generate_response status msg extra =
     (let response = [''success'' \<mapsto> PBool status, ''reason'' \<mapsto> PStr msg] in
      case extra of None \<Rightarrow> response | Some items \<Rightarrow> response ++ items)"

text \<open>\<open>__validate_args\<close>.\<close>

fun is_str :: "pyval \<Rightarrow> bool" where
  "is_str (PStr s) = True"
| "is_str v = False"

fun is_dict :: "pyval \<Rightarrow> bool" where
  "is_dict (PDict d) = True"
| "is_dict v = False"

definition validate_args :: "'b manager \<Rightarrow> pyval \<Rightarrow> pyval \<Rightarrow> exn + pyval \<times> pyval" where
  "validate_args self parameters secret' =
     (if \<not> is_str parameters \<and> \<not> is_dict parameters then
        Inl (TypeError ''Invalid data type for parameters. Must be a JSON string or a dictionary.'')
      else if \<not> is_str secret' then
        Inl (TypeError ''Invalid data type for secret. Must be a string.'')
      else
        (case parameters of
           PStr s \<Rightarrow>
             (case json_loads self s of
                Inl e \<Rightarrow> Inl e
              | Inr decoded \<Rightarrow> Inr (decoded, secret'))
         | _ \<Rightarrow> Inr (parameters, secret')))"

text \<open>
  The loop \<open>for param in REQUIRED_PARAMS: if not utils.has_parameter(param, parameters)\<close>:
  the first required parameter that is missing, if any.
\<close>

fun first_missing :: "'b manager \<Rightarrow> string list \<Rightarrow> pyval \<Rightarrow> exn + string option" where
  "first_missing self [] parameters = Inr None"
| "first_missing self (param # rest) parameters =
     (case has_parameter self param parameters of
        Inl e \<Rightarrow> Inl e
      | Inr present \<Rightarrow>
          (if \<not> present then Inr (Some param) else first_missing self rest parameters))"

text \<open>
  An object used as a key of the store, whose keys are the strings \<open>put\<close> was given: a
  list or a dict is not hashable, any other object that is not a string is no key of it.
\<close>

fun store_key :: "pyval \<Rightarrow> exn + string option" where
  "store_key (PStr s) = Inr (Some s)"
| "store_key (PList xs) = Inl (TypeError ''unhashable type: list'')"
| "store_key (PDict d) = Inl (TypeError ''unhashable type: dict'')"
| "store_key v = Inr None"

text \<open>\<open>describe_operation\<close>: the reply is a dictionary, or whatever \<open>get\<close> returns.\<close>

definition describe_operation ::
  "'b manager \<Rightarrow> pyval \<Rightarrow> pyval \<Rightarrow> 'b sys \<Rightarrow> (exn + pydict option) \<times> 'b sys" where
  "describe_operation self parameters secret' st =
     (case validate_args self parameters secret' of
        Inl e \<Rightarrow> (Inl e, st)
      | Inr (parameters, secret') \<Rightarrow>
          if PStr (secret self) \<noteq> secret' then
            (Inr (Some (generate_response False REASON_BAD_SECRET None)), st)
          else
            (case first_missing self DESCRIBE_INSTANCES_REQUIRED_PARAMS parameters of
               Inl e \<Rightarrow> (Inl e, st)
             | Inr (Some param) \<Rightarrow>
                 (Inr (Some (generate_response False (''no '' @ param) None)), st)
             | Inr None \<Rightarrow>
                 (case py_getitem parameters PARAM_OPERATION_ID of
                    Inl e \<Rightarrow> (Inl e, st)
                  | Inr operation_id \<Rightarrow>
                      (case store_key operation_id of
                         Inl e \<Rightarrow> (Inl e, st)
                       | Inr None \<Rightarrow>
                           (Inr (Some (generate_response False
                              REASON_OPERATION_ID_NOT_FOUND None)), st)
                       | Inr (Some key) \<Rightarrow>
                           (if has_key (operation_ids st) key
                            then (Inr (get (operation_ids st) key), st)
                            else (Inr (Some (generate_response False
                              REASON_OPERATION_ID_NOT_FOUND None)), st))))))"

text \<open>
  \<open>run_instances\<close>. The argument \<open>operation_id\<close> is the value
  \<open>utils.get_random_alphanumeric()\<close> returns in this call.
\<close>

definition run_instances ::
  "'b manager \<Rightarrow> pyval \<Rightarrow> pyval \<Rightarrow> string \<Rightarrow> 'b sys \<Rightarrow> (exn + pydict) \<times> 'b sys" where
  "run_instances self parameters secret' operation_id st =
     (case validate_args self parameters secret' of
        Inl e \<Rightarrow> (Inl e, st)
      | Inr (parameters, secret') \<Rightarrow>
          if PStr (secret self) \<noteq> secret' then
            (Inr (generate_response False REASON_BAD_SECRET None), st)
          else
            (case first_missing self RUN_INSTANCES_REQUIRED_PARAMS parameters of
               Inl e \<Rightarrow> (Inl e, st)
             | Inr (Some param) \<Rightarrow> (Inr (generate_response False (''no '' @ param) None), st)
             | Inr None \<Rightarrow>
                 (case py_getitem parameters PARAM_NUM_VMS of
                    Inl e \<Rightarrow> (Inl e, st)
                  | Inr v \<Rightarrow>
                 (case py_int v of
                    Inl e \<Rightarrow> (Inl e, st)
                  | Inr num_vms \<Rightarrow>
                      if num_vms \<le> 0 then
                        (Inr (generate_response False REASON_BAD_VM_COUNT None), st)
                      else
                 (case py_getitem parameters PARAM_INFRASTRUCTURE of
                    Inl e \<Rightarrow> (Inl e, st)
                  | Inr infrastructure \<Rightarrow>
                 (case create_agent self infrastructure of
                    Inl e \<Rightarrow> (Inl e, st)
                  | Inr agent \<Rightarrow>
                 (case agent_assert_required_parameters agent parameters OPERATION_RUN
                         (backend st) of
                    (Inl e, b) \<Rightarrow>
                      (case e of
                         AgentConfigurationException m \<Rightarrow>
                           (Inr (generate_response False (str_exn e) None), st\<lparr>backend := b\<rparr>)
                       | _ \<Rightarrow> (Inl e, st\<lparr>backend := b\<rparr>))
                  | (Inr u, b) \<Rightarrow>
                      (let status_info =
                             [''success'' \<mapsto> PBool True,
                              ''reason'' \<mapsto> PStr ''received run request'',
                              ''state'' \<mapsto> PStr STATE_PENDING,
                              ''vm_info'' \<mapsto> PNone];
                           st1 = st\<lparr>operation_ids := put (operation_ids st) operation_id status_info,
                                    backend := b\<rparr>;
                           response = generate_response True REASON_NONE
                                        (Some [''operation_id'' \<mapsto> PStr operation_id])
                       in if blocking self then
                            (case spawn_vms agent num_vms parameters operation_id st1 of
                               (Inl e, st2) \<Rightarrow> (Inl e, st2)
                             | (Inr u, st2) \<Rightarrow> (Inr response, st2))
                          else
                            (Inr response,
                             st1\<lparr>threads := threads st1 @
                                    [Spawn agent num_vms parameters operation_id]\<rparr>)))))))))"

text \<open>\<open>terminate_instances\<close>, with the drawn \<open>operation_id\<close> as an argument again.\<close>

definition terminate_instances ::
  "'b manager \<Rightarrow> pyval \<Rightarrow> pyval \<Rightarrow> string \<Rightarrow> 'b sys \<Rightarrow> (exn + pydict) \<times> 'b sys" where
  "terminate_instances self parameters secret' operation_id st =
     (case validate_args self parameters secret' of
        Inl e \<Rightarrow> (Inl e, st)
      | Inr (parameters, secret') \<Rightarrow>
          if PStr (secret self) \<noteq> secret' then
            (Inr (generate_response False REASON_BAD_SECRET None), st)
          else
            (case first_missing self TERMINATE_INSTANCES_REQUIRED_PARAMS parameters of
               Inl e \<Rightarrow> (Inl e, st)
             | Inr (Some param) \<Rightarrow> (Inr (generate_response False (''no '' @ param) None), st)
             | Inr None \<Rightarrow>
                 (case py_getitem parameters PARAM_INFRASTRUCTURE of
                    Inl e \<Rightarrow> (Inl e, st)
                  | Inr infrastructure \<Rightarrow>
                 (case create_agent self infrastructure of
                    Inl e \<Rightarrow> (Inl e, st)
                  | Inr agent \<Rightarrow>
                 (case agent_assert_required_parameters agent parameters OPERATION_TERMINATE
                         (backend st) of
                    (Inl e, b) \<Rightarrow>
                      (case e of
                         AgentConfigurationException m \<Rightarrow>
                           (Inr (generate_response False (str_exn e) None), st\<lparr>backend := b\<rparr>)
                       | _ \<Rightarrow> (Inl e, st\<lparr>backend := b\<rparr>))
                  | (Inr u, b) \<Rightarrow>
                      (let status_info =
                             [''success'' \<mapsto> PBool True,
                              ''reason'' \<mapsto> PStr ''received kill request'',
                              ''state'' \<mapsto> PStr STATE_PENDING];
                           st1 = st\<lparr>operation_ids := put (operation_ids st) operation_id status_info,
                                    backend := b\<rparr>;
                           response = generate_response True REASON_NONE
                                        (Some [''operation_id'' \<mapsto> PStr operation_id])
                       in if blocking self then
                            (case kill_vms agent parameters operation_id st1 of
                               (Inl e, st2) \<Rightarrow> (Inl e, st2)
                             | (Inr u, st2) \<Rightarrow> (Inr response, st2))
                          else
                            (Inr response,
                             st1\<lparr>threads := threads st1 @
                                    [Kill agent parameters operation_id]\<rparr>)))))))"

text \<open>\<open>attach_disk\<close>.\<close>

definition attach_disk ::
  "'b manager \<Rightarrow> pyval \<Rightarrow> pyval \<Rightarrow> pyval \<Rightarrow> pyval \<Rightarrow> 'b sys \<Rightarrow> (exn + pydict) \<times> 'b sys" where
  "attach_disk self parameters disk_name instance_id secret' st =
     (case validate_args self parameters secret' of
        Inl e \<Rightarrow> (Inl e, st)
      | Inr (parameters, secret') \<Rightarrow>
          if PStr (secret self) \<noteq> secret' then
            (Inr (generate_response False REASON_BAD_SECRET None), st)
          else
            (case py_getitem parameters PARAM_INFRASTRUCTURE of
               Inl e \<Rightarrow> (Inl e, st)
             | Inr infrastructure \<Rightarrow>
            (case create_agent self infrastructure of
               Inl e \<Rightarrow> (Inl e, st)
             | Inr agent \<Rightarrow>
            (case agent_attach_disk agent parameters disk_name instance_id (backend st) of
               (Inl e, b) \<Rightarrow> (Inl e, st\<lparr>backend := b\<rparr>)
             | (Inr disk_location, b) \<Rightarrow>
                 (Inr (generate_response True REASON_NONE (Some [''location'' \<mapsto> disk_location])),
                  st\<lparr>backend := b\<rparr>)))))"

section \<open>Runs of the system\<close>





text \<open>The state of a record, and the operation a started thread works on.\<close>

definition is_pending :: "pydict \<Rightarrow> bool" where
  "is_pending status_info = (status_info ''state'' = Some (PStr STATE_PENDING))"

definition is_terminal :: "pydict \<Rightarrow> bool" where
  "is_terminal status_info =
     (status_info ''state'' = Some (PStr STATE_SUCCESS) \<or>
      status_info ''state'' = Some (PStr STATE_FAILED))"





text \<open>The entry \<open>key\<close> of the record stored for \<open>operation_id\<close>.\<close>

definition record_field :: "'b sys \<Rightarrow> string \<Rightarrow> string \<Rightarrow> pyval option" where
  "record_field st operation_id key =
     (case get (operation_ids st) operation_id of
        None \<Rightarrow> None
      | Some status_info \<Rightarrow> status_info key)"

text \<open>
  A \<open>vm_info\<close> value whose three entries are lists of one length.
\<close>

definition aligned :: "pyval \<Rightarrow> bool" where
  "aligned v =
     (case v of
        PDict d \<Rightarrow>
          (case (map_of d ''public_ips'', map_of d ''private_ips'', map_of d ''instance_ids'') of
             (Some (PList public_ips), Some (PList private_ips), Some (PList instance_ids)) \<Rightarrow>
               length public_ips = length private_ips \<and>
               length private_ips = length instance_ids
           | _ \<Rightarrow> False)
      | _ \<Rightarrow> False)"

section \<open>A test installation\<close>

text \<open>
  Modelled from the spec: the method \<open>diff\<close> of \<open>BaseAgent\<close>, given there as
  \<open>diff(sequence_a, sequence_b) \<rightarrow> sequence\<close>, the set difference that keeps the order
  of \<open>sequence_a\<close>.
\<close>

definition base_diff :: "string list \<Rightarrow> string list \<Rightarrow> string list" where
  "base_diff list1 list2 = filter (\<lambda>item. item \<notin> set list2) list1"

text \<open>
  Modelled from the spec: \<open>utils.has_parameter\<close>, the check that a required key is
  present in the request.
\<close>

fun utils_has_parameter :: "string \<Rightarrow> pyval \<Rightarrow> exn + bool" where
  "utils_has_parameter p (PDict d) = Inr (map_of d p \<noteq> None)"
| "utils_has_parameter p v = Inl (OtherError ''AttributeError: object has no attribute has_key'')"

text \<open>
  An agent for tests. Its backend state is the inventory. \<open>run_instances\<close> starts the
  instances \<open>started\<close> and then returns them or raises \<open>run_error\<close>;
  \<open>describe_instances\<close> lists the inventory or raises \<open>describe_error\<close>;
  \<open>terminate_instances\<close> empties the inventory or raises \<open>terminate_error\<close>.
\<close>

definition test_agent :: "triple \<Rightarrow> exn option \<Rightarrow> exn option \<Rightarrow> exn option \<Rightarrow> triple agent" where
  "test_agent started run_error describe_error terminate_error =
     \<lparr> agent_assert_required_parameters = (\<lambda>parameters operation b. (Inr (), b)),
       agent_configure_instance_security = (\<lambda>parameters b. (Inr (PBool True), b)),
       agent_run_instances =
         (\<lambda>num_vms parameters security_configured public_ip_needed b.
            case (started, b) of
              ((new_public, new_private, new_ids), (public_ips, private_ips, instance_ids)) \<Rightarrow>
                (case run_error of
                   None \<Rightarrow> Inr (new_ids, new_public, new_private)
                 | Some e \<Rightarrow> Inl e,
                 (public_ips @ new_public, private_ips @ new_private, instance_ids @ new_ids))),
       agent_describe_instances =
         (\<lambda>parameters b. case describe_error of None \<Rightarrow> (Inr b, b) | Some e \<Rightarrow> (Inl e, b)),
       agent_terminate_instances =
         (\<lambda>parameters b.
            case terminate_error of None \<Rightarrow> (Inr (), ([], [], [])) | Some e \<Rightarrow> (Inl e, b)),
       agent_attach_disk = (\<lambda>parameters disk_name instance_id b. (Inr (PStr ''/dev/sdb''), b)),
       agent_diff = base_diff \<rparr>"

text \<open>
  A manager whose factory knows the infrastructure \<open>test\<close> only, and whose JSON decoder
  knows the empty object only.
\<close>

definition test_manager :: "bool \<Rightarrow> triple agent \<Rightarrow> triple manager" where
  "test_manager blocking' agent =
     \<lparr> blocking = blocking',
       secret = ''s3cr3t'',
       create_agent =
         (\<lambda>infrastructure.
            if infrastructure = PStr ''test'' then Inr agent
            else Inl (OtherError ''NameError: Unrecognized infrastructure'')),
       has_parameter = utils_has_parameter,
       json_loads =
         (\<lambda>s. if s = ''{}'' then Inr (PDict [])
              else Inl (ValueError ''No JSON object could be decoded'')) \<rparr>"

definition test_parameters :: "string \<Rightarrow> pyval" where
  "test_parameters num_vms =
     PDict [(''infrastructure'', PStr ''test''), (''num_vms'', PStr num_vms)]"

text \<open>A backend with one instance running, and nothing in the store.\<close>

definition test_sys :: "triple sys" where
  "test_sys =
     \<lparr> operation_ids = Map.empty,
       backend = ([''54.0.0.1''], [''10.0.0.1''], [''i-1'']),
       threads = [] \<rparr>"

text \<open>
  Agents for the scenarios below: one whose \<open>run_instances\<close> starts one instance of two
  and then raises; one that starts nothing and raises; one that starts an instance with
  the private address of a running one and then raises; one that starts two instances;
  one whose inventory listing is broken; and two whose \<open>terminate_instances\<close> raises.
\<close>

definition partial_agent :: "triple agent" where
  "partial_agent =
     test_agent ([''54.0.0.2''], [''10.0.0.2''], [''i-2''])
       (Some (AgentRuntimeException ''quota exceeded'')) None None"

definition failing_agent :: "triple agent" where
  "failing_agent =
     test_agent ([], [], []) (Some (AgentConfigurationException ''no such image'')) None None"

definition shared_address_agent :: "triple agent" where
  "shared_address_agent =
     test_agent ([''54.0.0.2''], [''10.0.0.1''], [''i-2''])
       (Some (AgentRuntimeException ''quota exceeded'')) None None"

definition good_agent :: "triple agent" where
  "good_agent =
     test_agent ([''54.0.0.2'', ''54.0.0.3''], [''10.0.0.2'', ''10.0.0.3''], [''i-2'', ''i-3''])
       None None None"

definition blind_agent :: "triple agent" where
  "blind_agent =
     test_agent ([''54.0.0.2'', ''54.0.0.3''], [''10.0.0.2'', ''10.0.0.3''], [''i-2'', ''i-3''])
       None (Some (AgentRuntimeException ''listing failed'')) None"

definition stuck_agent :: "triple agent" where
  "stuck_agent =
     test_agent ([], [], []) None None
       (Some (AgentRuntimeException ''could not terminate instances''))"

definition misconfigured_agent :: "triple agent" where
  "misconfigured_agent =
     test_agent ([], [], []) None None
       (Some (AgentConfigurationException ''bad credentials''))"

text \<open>The records \<open>run_instances\<close> and \<open>terminate_instances\<close> store at submission.\<close>

definition pending_run :: pydict where
  "pending_run =
     [''success'' \<mapsto> PBool True,
      ''reason'' \<mapsto> PStr ''received run request'',
      ''state'' \<mapsto> PStr ''pending'',
      ''vm_info'' \<mapsto> PNone]"

definition pending_kill :: pydict where
  "pending_kill =
     [''success'' \<mapsto> PBool True,
      ''reason'' \<mapsto> PStr ''received kill request'',
      ''state'' \<mapsto> PStr ''pending'']"

section \<open>Properties of the workers\<close>

lemmas worker_defs = spawn_vms_def spawn_vms_status_def spawn_vms_try_def spawn_vms_except_def
  kill_vms_def kill_vms_status_def describe_vms_def setitems_def get_def put_def has_key_def
  STATE_PENDING_def STATE_SUCCESS_def STATE_FAILED_def

lemmas api_defs = run_instances_def terminate_instances_def describe_operation_def
  attach_disk_def validate_args_def generate_response_def
  RUN_INSTANCES_REQUIRED_PARAMS_def TERMINATE_INSTANCES_REQUIRED_PARAMS_def
  DESCRIBE_INSTANCES_REQUIRED_PARAMS_def PARAM_OPERATION_ID_def PARAM_INFRASTRUCTURE_def
  PARAM_NUM_VMS_def REASON_BAD_SECRET_def REASON_BAD_VM_COUNT_def REASON_NONE_def
  REASON_OPERATION_ID_NOT_FOUND_def

lemmas test_defs = test_agent_def test_manager_def test_parameters_def test_sys_def
  base_diff_def partial_agent_def failing_agent_def shared_address_agent_def good_agent_def
  blind_agent_def stuck_agent_def misconfigured_agent_def pending_run_def pending_kill_def
  record_field_def

lemma int_of_str_2: "int_of_str ''2'' = Inr 2"
  by (simp add: int_of_str_def strip_def is_space_def unsigned_val_def digit_val_def)

lemma int_of_str_abc:
  "int_of_str ''abc'' = Inl (ValueError ''invalid literal for int() with base 10'')"
  by (simp add: int_of_str_def strip_def is_space_def unsigned_val_def digit_val_def)

lemma int_of_str_0: "int_of_str ''0'' = Inr 0"
  by (simp add: int_of_str_def strip_def is_space_def unsigned_val_def digit_val_def)

text \<open>
  C10. When \<open>terminate_instances\<close> of the agent raises \<open>AgentRuntimeException\<close>, the
  terminate worker stores the record it read with \<open>state\<close> set to \<open>failed\<close> and
  \<open>reason\<close> set to the message; the entry \<open>success\<close> is the one the record had, which
  is \<open>True\<close> since submission.
\<close>

theorem kill_vms_runtime_error_keeps_success:
  assumes "get (operation_ids st) operation_id = Some status_info"
    and "agent_terminate_instances agent parameters (backend st) =
           (Inl (AgentRuntimeException m), b')"
  shows "kill_vms agent parameters operation_id st =
           (Inr (), st\<lparr>operation_ids := put (operation_ids st) operation_id
                          (status_info(''state'' \<mapsto> PStr STATE_FAILED, ''reason'' \<mapsto> PStr m)),
                        backend := b'\<rparr>)
         \<and> (status_info(''state'' \<mapsto> PStr STATE_FAILED, ''reason'' \<mapsto> PStr m)) ''success''
             = status_info ''success''"
  using assms by (simp add: kill_vms_def kill_vms_status_def setitems_def)

theorem kill_vms_runtime_error_keeps_success_witness:
  "record_field
     (snd (kill_vms stuck_agent (test_parameters ''1'') ''op1''
        (snd (terminate_instances (test_manager False stuck_agent) (test_parameters ''1'')
           (PStr ''s3cr3t'') ''op1'' test_sys)))) ''op1'' ''success'' = Some (PBool True)
   \<and> record_field
     (snd (kill_vms stuck_agent (test_parameters ''1'') ''op1''
        (snd (terminate_instances (test_manager False stuck_agent) (test_parameters ''1'')
           (PStr ''s3cr3t'') ''op1'' test_sys)))) ''op1'' ''state'' = Some (PStr ''failed'')
   \<and> record_field
     (snd (kill_vms stuck_agent (test_parameters ''1'') ''op1''
        (snd (terminate_instances (test_manager False stuck_agent) (test_parameters ''1'')
           (PStr ''s3cr3t'') ''op1'' test_sys)))) ''op1'' ''reason''
       = Some (PStr ''could not terminate instances'')"
proof -
  let ?st = "snd (terminate_instances (test_manager False stuck_agent) (test_parameters ''1'')
           (PStr ''s3cr3t'') ''op1'' test_sys)"
  have h1: "get (operation_ids ?st) ''op1'' = Some pending_kill"
    by (simp add: api_defs worker_defs test_defs Let_def)
  have h2: "agent_terminate_instances stuck_agent (test_parameters ''1'') (backend ?st) =
      (Inl (AgentRuntimeException ''could not terminate instances''), backend test_sys)"
    by (simp add: api_defs worker_defs test_defs Let_def)
  from kill_vms_runtime_error_keeps_success[OF h1 h2] show ?thesis
    by (simp add: record_field_def pending_kill_def get_def put_def STATE_FAILED_def)
qed

text \<open>
  C1. When \<open>run_instances\<close> of the agent raises one of the two agent exceptions, the run
  worker lists the inventory again and takes the public addresses that are not in the
  baseline. If there are any, it stores the record with \<open>state\<close> set to \<open>success\<close>,
  \<open>vm_info\<close> set to the dictionary of the three differences (public addresses,
  private addresses and instance ids, each taken against its own column of the
  baseline), \<open>success\<close> set to \<open>False\<close> and
  \<open>reason\<close> set to the message. If there are none, it stores the record with \<open>state\<close>
  set to \<open>failed\<close>, \<open>success\<close> set to \<open>False\<close>, \<open>reason\<close> set to the message, and
  \<open>vm_info\<close> as it was.
\<close>

theorem spawn_vms_run_error:
  assumes "get (operation_ids st) operation_id = Some status_info"
    and "describe_vms agent parameters (backend st) =
           (Inr (active_public_ips, active_private_ips, active_instances), b1)"
    and "agent_configure_instance_security agent parameters b1 = (Inr security_configured, b2)"
    and "agent_run_instances agent num_vms parameters security_configured False b2 = (Inl e, b3)"
    and "is_agent_exception e"
    and "describe_vms agent parameters b3 = (Inr (public_ips, private_ips, instance_ids), b4)"
  shows "spawn_vms agent num_vms parameters operation_id st =
           (Inr (), st\<lparr>operation_ids := put (operation_ids st) operation_id
              (if agent_diff agent public_ips active_public_ips \<noteq> [] then
                 status_info(''state'' \<mapsto> PStr STATE_SUCCESS,
                   ''vm_info'' \<mapsto> PDict
                     [(''public_ips'',
                         PList (map PStr (agent_diff agent public_ips active_public_ips))),
                      (''private_ips'',
                         PList (map PStr (agent_diff agent private_ips active_private_ips))),
                      (''instance_ids'',
                         PList (map PStr (agent_diff agent instance_ids active_instances)))],
                   ''success'' \<mapsto> PBool False,
                   ''reason'' \<mapsto> PStr (str_exn e))
               else
                 status_info(''state'' \<mapsto> PStr STATE_FAILED,
                   ''success'' \<mapsto> PBool False,
                   ''reason'' \<mapsto> PStr (str_exn e))),
              backend := b4\<rparr>)
         \<and> (status_info(''state'' \<mapsto> PStr STATE_FAILED, ''success'' \<mapsto> PBool False,
               ''reason'' \<mapsto> PStr (str_exn e))) ''vm_info'' = status_info ''vm_info''"
  using assms
  by (simp add: spawn_vms_def spawn_vms_status_def spawn_vms_try_def spawn_vms_except_def
      setitems_def vm_info_def Let_def)

theorem spawn_vms_run_error_witness:
  "snd (spawn_vms partial_agent 2 (test_parameters ''2'') ''op1''
          (test_sys\<lparr>operation_ids := [''op1'' \<mapsto> pending_run]\<rparr>)) =
     test_sys\<lparr>operation_ids := [''op1'' \<mapsto>
         pending_run(''state'' \<mapsto> PStr ''success'',
           ''vm_info'' \<mapsto> PDict [(''public_ips'', PList [PStr ''54.0.0.2'']),
                                (''private_ips'', PList [PStr ''10.0.0.2'']),
                                (''instance_ids'', PList [PStr ''i-2''])],
           ''success'' \<mapsto> PBool False,
           ''reason'' \<mapsto> PStr ''quota exceeded'')],
       backend := ([''54.0.0.1'', ''54.0.0.2''], [''10.0.0.1'', ''10.0.0.2''], [''i-1'', ''i-2''])\<rparr>
   \<and> snd (spawn_vms failing_agent 2 (test_parameters ''2'') ''op1''
          (test_sys\<lparr>operation_ids := [''op1'' \<mapsto> pending_run]\<rparr>)) =
     test_sys\<lparr>operation_ids := [''op1'' \<mapsto>
         pending_run(''state'' \<mapsto> PStr ''failed'',
           ''success'' \<mapsto> PBool False,
           ''reason'' \<mapsto> PStr ''no such image'')]\<rparr>"
proof -
  let ?st = "test_sys\<lparr>operation_ids := [''op1'' \<mapsto> pending_run]\<rparr>"
  let ?b = "([''54.0.0.1''], [''10.0.0.1''], [''i-1''])"
  let ?b' = "([''54.0.0.1'', ''54.0.0.2''], [''10.0.0.1'', ''10.0.0.2''], [''i-1'', ''i-2''])"
  have g: "get (operation_ids ?st) ''op1'' = Some pending_run"
    by (simp add: get_def)
  have p1: "describe_vms partial_agent (test_parameters ''2'') (backend ?st) = (Inr ?b, ?b)"
    by (simp add: describe_vms_def test_defs)
  have p2: "agent_configure_instance_security partial_agent (test_parameters ''2'') ?b =
      (Inr (PBool True), ?b)"
    by (simp add: test_defs)
  have p3: "agent_run_instances partial_agent 2 (test_parameters ''2'') (PBool True) False ?b =
      (Inl (AgentRuntimeException ''quota exceeded''), ?b')"
    by (simp add: test_defs)
  have p4: "describe_vms partial_agent (test_parameters ''2'') ?b' = (Inr ?b', ?b')"
    by (simp add: describe_vms_def test_defs)
  have f1: "describe_vms failing_agent (test_parameters ''2'') (backend ?st) = (Inr ?b, ?b)"
    by (simp add: describe_vms_def test_defs)
  have f2: "agent_configure_instance_security failing_agent (test_parameters ''2'') ?b =
      (Inr (PBool True), ?b)"
    by (simp add: test_defs)
  have f3: "agent_run_instances failing_agent 2 (test_parameters ''2'') (PBool True) False ?b =
      (Inl (AgentConfigurationException ''no such image''), ?b)"
    by (simp add: test_defs)
  have f4: "describe_vms failing_agent (test_parameters ''2'') ?b = (Inr ?b, ?b)"
    by (simp add: describe_vms_def test_defs)
  have a: "is_agent_exception (AgentRuntimeException ''quota exceeded'')"
    and c: "is_agent_exception (AgentConfigurationException ''no such image'')"
    by simp_all
  have d1: "agent_diff partial_agent = base_diff" and d2: "agent_diff failing_agent = base_diff"
    by (simp_all add: test_defs)
  from spawn_vms_run_error[OF g p1 p2 p3 a p4] spawn_vms_run_error[OF g f1 f2 f3 c f4]
  show ?thesis
    by (simp add: d1 d2 base_diff_def put_def test_sys_def STATE_SUCCESS_def STATE_FAILED_def)
qed

subsection \<open>What leaves a worker, and what it stores\<close>

lemma describe_vms_raises:
  "describe_vms agent parameters b = (Inl x, b') \<Longrightarrow> \<not> is_agent_exception x"
  by (auto simp: describe_vms_def split: prod.splits sum.splits if_splits)


lemma setitems_raises: "setitems status_info kvs = Inl x \<Longrightarrow> \<not> is_agent_exception x"
  by (auto simp: setitems_def split: option.splits)


lemma spawn_vms_except_raises:
  "spawn_vms_except agent parameters status_info active e b = (Inl x, b') \<Longrightarrow>
   \<not> is_agent_exception x"
  by (auto simp: spawn_vms_except_def Let_def split: prod.splits sum.splits if_splits
      dest: describe_vms_raises setitems_raises)


lemma spawn_vms_try_raises:
  "spawn_vms_try agent num_vms parameters status_info active b = (Inl x, b') \<Longrightarrow>
   \<not> is_agent_exception x"
  by (auto simp: spawn_vms_try_def split: prod.splits sum.splits if_splits
      dest: spawn_vms_except_raises setitems_raises)


lemma spawn_vms_status_raises:
  "spawn_vms_status agent num_vms parameters operation_id store b = (Inl x, b') \<Longrightarrow>
   \<not> is_agent_exception x"
  by (auto simp: spawn_vms_status_def Let_def split: prod.splits sum.splits
      dest: describe_vms_raises spawn_vms_try_raises)


lemma spawn_vms_raises:
  "fst (spawn_vms agent num_vms parameters operation_id st) = Inl x \<Longrightarrow> \<not> is_agent_exception x"
  by (auto simp: spawn_vms_def split: prod.splits sum.splits dest: spawn_vms_status_raises)


lemma kill_vms_raises:
  "fst (kill_vms agent parameters operation_id st) = Inl x \<Longrightarrow> \<not> is_agent_runtime_exception x"
  by (auto simp: kill_vms_def kill_vms_status_def setitems_def Let_def
      split: prod.splits sum.splits if_splits option.splits)


text \<open>
  C8. When the first \<open>describe_instances\<close> call of the run worker raises one of the two
  agent exceptions, \<open>__describe_vms\<close> returns three empty lists, the worker goes on to
  its \<open>try\<close> statement with them as the baseline, and that exception is not what leaves
  the worker; when the agent then configures security and starts the instances, the
  record is stored with \<open>state\<close> set to \<open>success\<close> and the instances in \<open>vm_info\<close>.
\<close>

theorem spawn_vms_baseline_failure:
  assumes "agent_describe_instances agent parameters (backend st) = (Inl e, b1)"
    and "is_agent_exception e"
  shows "describe_vms agent parameters (backend st) = (Inr ([], [], []), b1)
    \<and> spawn_vms_status agent num_vms parameters operation_id (operation_ids st) (backend st) =
        spawn_vms_try agent num_vms parameters (get (operation_ids st) operation_id)
          ([], [], []) b1
    \<and> fst (spawn_vms agent num_vms parameters operation_id st) \<noteq> Inl e
    \<and> (\<forall>security_configured b2 ids public_ips private_ips b3 status_info.
          agent_configure_instance_security agent parameters b1 = (Inr security_configured, b2) \<longrightarrow>
          agent_run_instances agent num_vms parameters security_configured False b2 =
            (Inr (ids, public_ips, private_ips), b3) \<longrightarrow>
          get (operation_ids st) operation_id = Some status_info \<longrightarrow>
          spawn_vms agent num_vms parameters operation_id st =
            (Inr (), st\<lparr>operation_ids := put (operation_ids st) operation_id
                (status_info(''state'' \<mapsto> PStr STATE_SUCCESS,
                   ''vm_info'' \<mapsto> vm_info public_ips private_ips ids)),
              backend := b3\<rparr>))"
proof -
  have d: "describe_vms agent parameters (backend st) = (Inr ([], [], []), b1)"
    using assms by (simp add: describe_vms_def)
  have s: "spawn_vms_status agent num_vms parameters operation_id (operation_ids st) (backend st) =
        spawn_vms_try agent num_vms parameters (get (operation_ids st) operation_id)
          ([], [], []) b1"
    by (simp add: spawn_vms_status_def d)
  have n: "fst (spawn_vms agent num_vms parameters operation_id st) \<noteq> Inl e"
    using spawn_vms_raises assms(2) by blast
  have p: "spawn_vms agent num_vms parameters operation_id st =
            (Inr (), st\<lparr>operation_ids := put (operation_ids st) operation_id
                (status_info(''state'' \<mapsto> PStr STATE_SUCCESS,
                   ''vm_info'' \<mapsto> vm_info public_ips private_ips ids)),
              backend := b3\<rparr>)"
    if "agent_configure_instance_security agent parameters b1 = (Inr security_configured, b2)"
      and "agent_run_instances agent num_vms parameters security_configured False b2 =
            (Inr (ids, public_ips, private_ips), b3)"
      and "get (operation_ids st) operation_id = Some status_info"
    for security_configured b2 ids public_ips private_ips b3 status_info
    using that by (simp add: spawn_vms_def s spawn_vms_try_def setitems_def)
  from d s n p show ?thesis by blast
qed

theorem spawn_vms_baseline_failure_witness:
  "describe_vms blind_agent (test_parameters ''2'') (backend test_sys) =
     (Inr ([], [], []), backend test_sys)
   \<and> snd (spawn_vms blind_agent 2 (test_parameters ''2'') ''op1''
          (test_sys\<lparr>operation_ids := [''op1'' \<mapsto> pending_run]\<rparr>)) =
     test_sys\<lparr>operation_ids := [''op1'' \<mapsto>
         pending_run(''state'' \<mapsto> PStr ''success'',
           ''vm_info'' \<mapsto> vm_info [''54.0.0.2'', ''54.0.0.3''] [''10.0.0.2'', ''10.0.0.3'']
                            [''i-2'', ''i-3''])],
       backend := ([''54.0.0.1'', ''54.0.0.2'', ''54.0.0.3''],
                   [''10.0.0.1'', ''10.0.0.2'', ''10.0.0.3''], [''i-1'', ''i-2'', ''i-3''])\<rparr>"
proof -
  let ?st = "test_sys\<lparr>operation_ids := [''op1'' \<mapsto> pending_run]\<rparr>"
  let ?b = "([''54.0.0.1''], [''10.0.0.1''], [''i-1''])"
  let ?b' = "([''54.0.0.1'', ''54.0.0.2'', ''54.0.0.3''],
              [''10.0.0.1'', ''10.0.0.2'', ''10.0.0.3''], [''i-1'', ''i-2'', ''i-3''])"
  have h: "agent_describe_instances blind_agent (test_parameters ''2'') (backend ?st) =
      (Inl (AgentRuntimeException ''listing failed''), ?b)"
    by (simp add: test_defs)
  have a: "is_agent_exception (AgentRuntimeException ''listing failed'')"
    by simp
  have c: "agent_configure_instance_security blind_agent (test_parameters ''2'') ?b =
      (Inr (PBool True), ?b)"
    by (simp add: test_defs)
  have r: "agent_run_instances blind_agent 2 (test_parameters ''2'') (PBool True) False ?b =
      (Inr ([''i-2'', ''i-3''], [''54.0.0.2'', ''54.0.0.3''], [''10.0.0.2'', ''10.0.0.3'']), ?b')"
    by (simp add: test_defs)
  have g: "get (operation_ids ?st) ''op1'' = Some pending_run"
    by (simp add: get_def)
  note t = spawn_vms_baseline_failure[OF h a, of 2 "''op1''"]
  from t have "describe_vms blind_agent (test_parameters ''2'') (backend ?st) =
      (Inr ([], [], []), ?b)"
    by blast
  moreover from t c r g have "spawn_vms blind_agent 2 (test_parameters ''2'') ''op1'' ?st =
      (Inr (), ?st\<lparr>operation_ids := put (operation_ids ?st) ''op1''
          (pending_run(''state'' \<mapsto> PStr STATE_SUCCESS,
             ''vm_info'' \<mapsto> vm_info [''54.0.0.2'', ''54.0.0.3''] [''10.0.0.2'', ''10.0.0.3'']
                              [''i-2'', ''i-3''])),
        backend := ?b'\<rparr>)"
    by blast
  ultimately show ?thesis
    by (simp add: put_def test_sys_def STATE_SUCCESS_def)
qed

text \<open>
  C4. The run worker absorbs both agent exceptions, as \<open>__describe_vms\<close> does: an
  \<open>AgentConfigurationException\<close> raised by \<open>run_instances\<close> ends in a stored record
  with \<open>state\<close> \<open>failed\<close>. The terminate worker's \<open>except\<close> clause names
  \<open>AgentRuntimeException\<close> alone: an \<open>AgentConfigurationException\<close> raised by
  \<open>terminate_instances\<close> leaves \<open>__kill_vms\<close> before its \<open>put\<close>, and the record
  stays pending.
\<close>

theorem kill_vms_configuration_error_escapes:
  "fst (kill_vms misconfigured_agent (test_parameters ''1'') ''op1''
          (test_sys\<lparr>operation_ids := [''op1'' \<mapsto> pending_kill]\<rparr>)) =
     Inl (AgentConfigurationException ''bad credentials'')
   \<and> is_agent_exception (AgentConfigurationException ''bad credentials'')
   \<and> snd (kill_vms misconfigured_agent (test_parameters ''1'') ''op1''
          (test_sys\<lparr>operation_ids := [''op1'' \<mapsto> pending_kill]\<rparr>)) =
     test_sys\<lparr>operation_ids := [''op1'' \<mapsto> pending_kill]\<rparr>
   \<and> record_field (snd (kill_vms misconfigured_agent (test_parameters ''1'') ''op1''
          (test_sys\<lparr>operation_ids := [''op1'' \<mapsto> pending_kill]\<rparr>))) ''op1'' ''state'' =
     Some (PStr ''pending'')
   \<and> fst (spawn_vms failing_agent 2 (test_parameters ''2'') ''op1''
          (test_sys\<lparr>operation_ids := [''op1'' \<mapsto> pending_run]\<rparr>)) = Inr ()
   \<and> record_field (snd (spawn_vms failing_agent 2 (test_parameters ''2'') ''op1''
          (test_sys\<lparr>operation_ids := [''op1'' \<mapsto> pending_run]\<rparr>))) ''op1'' ''state'' =
     Some (PStr ''failed'')
   \<and> record_field (snd (spawn_vms failing_agent 2 (test_parameters ''2'') ''op1''
          (test_sys\<lparr>operation_ids := [''op1'' \<mapsto> pending_run]\<rparr>))) ''op1'' ''reason'' =
     Some (PStr ''no such image'')"
  by (simp add: worker_defs test_defs Let_def)

subsection \<open>The lists of \<open>vm_info\<close>\<close>

lemma aligned_vm_info:
  "aligned (vm_info public_ips private_ips instance_ids) =
     (length public_ips = length private_ips \<and> length private_ips = length instance_ids)"
  by (simp add: aligned_def vm_info_def)

lemma length_base_diff:
  assumes "length xs = length ys"
    and "\<forall>i<length xs. (xs ! i \<in> set old_xs) = (ys ! i \<in> set old_ys)"
  shows "length (base_diff xs old_xs) = length (base_diff ys old_ys)"
  using assms
proof (induction xs ys rule: list_induct2)
  case Nil
  then show ?case by (simp add: base_diff_def)
next
  case (Cons x xs y ys)
  from Cons.prems have hd: "(x \<in> set old_xs) = (y \<in> set old_ys)"
    by force
  from Cons.prems have "\<forall>i<length xs. (xs ! i \<in> set old_xs) = (ys ! i \<in> set old_ys)"
    by force
  with Cons.IH have "length (base_diff xs old_xs) = length (base_diff ys old_ys)"
    by simp
  with hd show ?case
    by (simp add: base_diff_def)
qed

text \<open>
  C7, as the code has it. On the full-success path \<open>vm_info\<close> holds the three lists the
  agent's \<open>run_instances\<close> returned, which have one length when the agent returned
  lists of one length. On the reconciliation path each list is the difference of one
  column of the inventory with the same column of the baseline, taken on its own; with
  the difference of \<open>BaseAgent\<close> the three have one length when the inventory's columns
  have one length and an instance is new in one column exactly when it is new in the
  others.
\<close>

theorem vm_info_aligned:
  "(get (operation_ids st) operation_id = Some status_info \<longrightarrow>
    describe_vms agent parameters (backend st) = (Inr active, b1) \<longrightarrow>
    agent_configure_instance_security agent parameters b1 = (Inr security_configured, b2) \<longrightarrow>
    agent_run_instances agent num_vms parameters security_configured False b2 =
      (Inr (ids, public_ips, private_ips), b3) \<longrightarrow>
    length public_ips = length private_ips \<longrightarrow> length private_ips = length ids \<longrightarrow>
    (\<exists>r. spawn_vms agent num_vms parameters operation_id st =
            (Inr (), st\<lparr>operation_ids := put (operation_ids st) operation_id r, backend := b3\<rparr>)
         \<and> r ''vm_info'' = Some (vm_info public_ips private_ips ids)
         \<and> aligned (vm_info public_ips private_ips ids)))
   \<and> (get (operation_ids st) operation_id = Some status_info \<longrightarrow>
    describe_vms agent parameters (backend st) =
      (Inr (active_public_ips, active_private_ips, active_instances), b1) \<longrightarrow>
    (agent_configure_instance_security agent parameters b1 = (Inl e, b3) \<or>
     agent_configure_instance_security agent parameters b1 = (Inr security_configured, b2) \<and>
     agent_run_instances agent num_vms parameters security_configured False b2 = (Inl e, b3)) \<longrightarrow>
    is_agent_exception e \<longrightarrow>
    describe_vms agent parameters b3 = (Inr (new_public_ips, new_private_ips, new_ids), b4) \<longrightarrow>
    agent_diff agent = base_diff \<longrightarrow>
    base_diff new_public_ips active_public_ips \<noteq> [] \<longrightarrow>
    length new_public_ips = length new_private_ips \<longrightarrow>
    length new_private_ips = length new_ids \<longrightarrow>
    (\<forall>i<length new_public_ips.
       (new_public_ips ! i \<in> set active_public_ips) =
         (new_private_ips ! i \<in> set active_private_ips)) \<longrightarrow>
    (\<forall>i<length new_private_ips.
       (new_private_ips ! i \<in> set active_private_ips) =
         (new_ids ! i \<in> set active_instances)) \<longrightarrow>
    (\<exists>r. spawn_vms agent num_vms parameters operation_id st =
            (Inr (), st\<lparr>operation_ids := put (operation_ids st) operation_id r, backend := b4\<rparr>)
         \<and> r ''vm_info'' =
             Some (vm_info (base_diff new_public_ips active_public_ips)
                     (base_diff new_private_ips active_private_ips)
                     (base_diff new_ids active_instances))
         \<and> aligned (vm_info (base_diff new_public_ips active_public_ips)
                     (base_diff new_private_ips active_private_ips)
                     (base_diff new_ids active_instances))))"
proof (intro conjI impI)
  assume "get (operation_ids st) operation_id = Some status_info"
    and "describe_vms agent parameters (backend st) = (Inr active, b1)"
    and "agent_configure_instance_security agent parameters b1 = (Inr security_configured, b2)"
    and "agent_run_instances agent num_vms parameters security_configured False b2 =
      (Inr (ids, public_ips, private_ips), b3)"
    and "length public_ips = length private_ips" and "length private_ips = length ids"
  then have "spawn_vms agent num_vms parameters operation_id st =
      (Inr (), st\<lparr>operation_ids := put (operation_ids st) operation_id
          (status_info(''state'' \<mapsto> PStr STATE_SUCCESS,
             ''vm_info'' \<mapsto> vm_info public_ips private_ips ids)),
        backend := b3\<rparr>)"
    and "aligned (vm_info public_ips private_ips ids)"
    by (simp_all add: spawn_vms_def spawn_vms_status_def spawn_vms_try_def setitems_def
        aligned_vm_info)
  moreover have "(status_info(''state'' \<mapsto> PStr STATE_SUCCESS,
      ''vm_info'' \<mapsto> vm_info public_ips private_ips ids)) ''vm_info'' =
      Some (vm_info public_ips private_ips ids)"
    by simp
  ultimately show "\<exists>r. spawn_vms agent num_vms parameters operation_id st =
            (Inr (), st\<lparr>operation_ids := put (operation_ids st) operation_id r, backend := b3\<rparr>)
         \<and> r ''vm_info'' = Some (vm_info public_ips private_ips ids)
         \<and> aligned (vm_info public_ips private_ips ids)"
    by blast
next
  let ?pub = "base_diff new_public_ips active_public_ips"
  let ?priv = "base_diff new_private_ips active_private_ips"
  let ?ids = "base_diff new_ids active_instances"
  let ?r = "status_info(''state'' \<mapsto> PStr STATE_SUCCESS,
      ''vm_info'' \<mapsto> vm_info ?pub ?priv ?ids,
      ''success'' \<mapsto> PBool False, ''reason'' \<mapsto> PStr (str_exn e))"
  assume g: "get (operation_ids st) operation_id = Some status_info"
    and a: "describe_vms agent parameters (backend st) =
      (Inr (active_public_ips, active_private_ips, active_instances), b1)"
    and f: "agent_configure_instance_security agent parameters b1 = (Inl e, b3) \<or>
      agent_configure_instance_security agent parameters b1 = (Inr security_configured, b2) \<and>
      agent_run_instances agent num_vms parameters security_configured False b2 = (Inl e, b3)"
    and e: "is_agent_exception e"
    and d: "describe_vms agent parameters b3 = (Inr (new_public_ips, new_private_ips, new_ids), b4)"
    and diff: "agent_diff agent = base_diff"
    and ne: "base_diff new_public_ips active_public_ips \<noteq> []"
    and l1: "length new_public_ips = length new_private_ips"
    and l2: "length new_private_ips = length new_ids"
    and n1: "\<forall>i<length new_public_ips.
       (new_public_ips ! i \<in> set active_public_ips) =
         (new_private_ips ! i \<in> set active_private_ips)"
    and n2: "\<forall>i<length new_private_ips.
       (new_private_ips ! i \<in> set active_private_ips) =
         (new_ids ! i \<in> set active_instances)"
  have ex: "spawn_vms_except agent parameters (Some status_info)
      (active_public_ips, active_private_ips, active_instances) e b3 = (Inr ?r, b4)"
    using d diff ne by (simp add: spawn_vms_except_def setitems_def)
  have t: "spawn_vms_try agent num_vms parameters (Some status_info)
      (active_public_ips, active_private_ips, active_instances) b1 = (Inr ?r, b4)"
    using f e ex by (auto simp: spawn_vms_try_def)
  have s: "spawn_vms agent num_vms parameters operation_id st =
      (Inr (), st\<lparr>operation_ids := put (operation_ids st) operation_id ?r, backend := b4\<rparr>)"
    by (simp add: spawn_vms_def spawn_vms_status_def g a t)
  have v: "?r ''vm_info'' = Some (vm_info ?pub ?priv ?ids)"
    by simp
  have "length ?pub = length ?priv" and "length ?priv = length ?ids"
    using length_base_diff[OF l1 n1] length_base_diff[OF l2 n2] by simp_all
  then have al: "aligned (vm_info ?pub ?priv ?ids)"
    by (simp add: aligned_vm_info)
  from s v al show "\<exists>r. spawn_vms agent num_vms parameters operation_id st =
            (Inr (), st\<lparr>operation_ids := put (operation_ids st) operation_id r, backend := b4\<rparr>)
         \<and> r ''vm_info'' = Some (vm_info ?pub ?priv ?ids)
         \<and> aligned (vm_info ?pub ?priv ?ids)"
    by blast
qed

text \<open>
  The claim itself fails on the reconciliation path: an instance started with the
  private address of an instance that was already running is new in the list of public
  addresses and of identifiers, and not in the list of private addresses.
\<close>

theorem vm_info_not_aligned_counterexample:
  "record_field
     (snd (run_instances (test_manager True shared_address_agent) (test_parameters ''2'')
        (PStr ''s3cr3t'') ''op1'' test_sys)) ''op1'' ''vm_info'' =
     Some (vm_info [''54.0.0.2''] [] [''i-2''])
   \<and> \<not> aligned (vm_info [''54.0.0.2''] [] [''i-2''])"
  by (simp add: worker_defs api_defs test_defs int_of_str_2 Let_def aligned_def vm_info_def)

theorem vm_info_aligned_witness:
  "(\<exists>r. spawn_vms good_agent 2 (test_parameters ''2'') ''op1''
           (test_sys\<lparr>operation_ids := [''op1'' \<mapsto> pending_run]\<rparr>) =
         (Inr (), test_sys\<lparr>operation_ids := [''op1'' \<mapsto> r],
            backend := ([''54.0.0.1'', ''54.0.0.2'', ''54.0.0.3''],
                        [''10.0.0.1'', ''10.0.0.2'', ''10.0.0.3''],
                        [''i-1'', ''i-2'', ''i-3''])\<rparr>)
       \<and> r ''vm_info'' =
           Some (vm_info [''54.0.0.2'', ''54.0.0.3''] [''10.0.0.2'', ''10.0.0.3'']
                   [''i-2'', ''i-3'']))
   \<and> aligned (vm_info [''54.0.0.2'', ''54.0.0.3''] [''10.0.0.2'', ''10.0.0.3'']
                [''i-2'', ''i-3''])
   \<and> (\<exists>r. spawn_vms partial_agent 2 (test_parameters ''2'') ''op1''
           (test_sys\<lparr>operation_ids := [''op1'' \<mapsto> pending_run]\<rparr>) =
         (Inr (), test_sys\<lparr>operation_ids := [''op1'' \<mapsto> r],
            backend := ([''54.0.0.1'', ''54.0.0.2''], [''10.0.0.1'', ''10.0.0.2''],
                        [''i-1'', ''i-2''])\<rparr>)
       \<and> r ''vm_info'' = Some (vm_info [''54.0.0.2''] [''10.0.0.2''] [''i-2'']))
   \<and> aligned (vm_info [''54.0.0.2''] [''10.0.0.2''] [''i-2''])"
proof -
  let ?st = "test_sys\<lparr>operation_ids := [''op1'' \<mapsto> pending_run]\<rparr>"
  let ?P = "test_parameters ''2''"
  let ?b = "([''54.0.0.1''], [''10.0.0.1''], [''i-1''])"
  let ?b2 = "([''54.0.0.1'', ''54.0.0.2''], [''10.0.0.1'', ''10.0.0.2''], [''i-1'', ''i-2''])"
  let ?b3 = "([''54.0.0.1'', ''54.0.0.2'', ''54.0.0.3''],
              [''10.0.0.1'', ''10.0.0.2'', ''10.0.0.3''], [''i-1'', ''i-2'', ''i-3''])"
  have g: "get (operation_ids ?st) ''op1'' = Some pending_run"
    by (simp add: get_def)
  have a: "describe_vms good_agent ?P (backend ?st) = (Inr ?b, ?b)"
    by (simp add: describe_vms_def test_defs)
  have c: "agent_configure_instance_security good_agent ?P ?b = (Inr (PBool True), ?b)"
    by (simp add: test_defs)
  have r: "agent_run_instances good_agent 2 ?P (PBool True) False ?b =
      (Inr ([''i-2'', ''i-3''], [''54.0.0.2'', ''54.0.0.3''], [''10.0.0.2'', ''10.0.0.3'']), ?b3)"
    by (simp add: test_defs)
  have l1: "length [''54.0.0.2'', ''54.0.0.3''] = length [''10.0.0.2'', ''10.0.0.3'']"
    and l2: "length [''10.0.0.2'', ''10.0.0.3''] = length [''i-2'', ''i-3'']"
    by simp_all
  note full = vm_info_aligned[THEN conjunct1, rule_format, OF g a c r l1 l2]
  have p1: "describe_vms partial_agent ?P (backend ?st) = (Inr ?b, ?b)"
    by (simp add: describe_vms_def test_defs)
  have p2: "agent_configure_instance_security partial_agent ?P ?b = (Inr (PBool True), ?b)"
    by (simp add: test_defs)
  have p3: "agent_run_instances partial_agent 2 ?P (PBool True) False ?b =
      (Inl (AgentRuntimeException ''quota exceeded''), ?b2)"
    by (simp add: test_defs)
  have e: "is_agent_exception (AgentRuntimeException ''quota exceeded'')"
    by simp
  have p4: "describe_vms partial_agent ?P ?b2 = (Inr ?b2, ?b2)"
    by (simp add: describe_vms_def test_defs)
  have df: "agent_diff partial_agent = base_diff"
    by (simp add: test_defs)
  have ne: "base_diff [''54.0.0.1'', ''54.0.0.2''] [''54.0.0.1''] \<noteq> []"
    by (simp add: base_diff_def)
  have m1: "length [''54.0.0.1'', ''54.0.0.2''] = length [''10.0.0.1'', ''10.0.0.2'']"
    and m2: "length [''10.0.0.1'', ''10.0.0.2''] = length [''i-1'', ''i-2'']"
    by simp_all
  have n1: "\<forall>i<length [''54.0.0.1'', ''54.0.0.2''].
      ([''54.0.0.1'', ''54.0.0.2''] ! i \<in> set [''54.0.0.1'']) =
      ([''10.0.0.1'', ''10.0.0.2''] ! i \<in> set [''10.0.0.1''])"
    by (simp add: less_Suc_eq)
  have n2: "\<forall>i<length [''10.0.0.1'', ''10.0.0.2''].
      ([''10.0.0.1'', ''10.0.0.2''] ! i \<in> set [''10.0.0.1'']) =
      ([''i-1'', ''i-2''] ! i \<in> set [''i-1''])"
    by (simp add: less_Suc_eq)
  note part = vm_info_aligned[THEN conjunct2, rule_format,
      OF g p1 disjI2[OF conjI[OF p2 p3]] e p4 df ne m1 m2 n1[rule_format] n2[rule_format]]
  from full part show ?thesis
    by (simp add: base_diff_def put_def test_sys_def) blast
qed

section \<open>Properties of the public methods\<close>

lemma validate_args_well_formed:
  assumes "is_dict parameters \<or>
      (\<exists>j d. parameters = PStr j \<and> json_loads self j = Inr d \<and> is_dict d)"
  shows "\<exists>p. validate_args self parameters (PStr s) = Inr (p, PStr s) \<and> is_dict p"
proof (cases "is_dict parameters")
  case True
  then obtain d where "parameters = PDict d"
    by (cases parameters) simp_all
  then show ?thesis
    by (simp add: validate_args_def)
next
  case False
  with assms obtain j d where "parameters = PStr j" "json_loads self j = Inr d" "is_dict d"
    by blast
  then show ?thesis
    by (simp add: validate_args_def)
qed

text \<open>
  C6. A call of \<open>run_instances\<close>, \<open>terminate_instances\<close>, \<open>describe_operation\<close> or
  \<open>attach_disk\<close> whose parameters are a dict, or a string that \<open>json.loads\<close> decodes to
  one, and whose secret is a string other than the manager's, returns the response
  \<open>{'success': False, 'reason': 'bad secret'}\<close> whatever the parameters hold, and leaves
  the store, the backend and the threads as they were.
\<close>

theorem bad_secret_rejected:
  assumes "is_dict parameters \<or>
      (\<exists>j d. parameters = PStr j \<and> json_loads self j = Inr d \<and> is_dict d)"
    and "s \<noteq> secret self"
  shows "run_instances self parameters (PStr s) operation_id st =
           (Inr [''success'' \<mapsto> PBool False, ''reason'' \<mapsto> PStr ''bad secret''], st)
       \<and> terminate_instances self parameters (PStr s) operation_id st =
           (Inr [''success'' \<mapsto> PBool False, ''reason'' \<mapsto> PStr ''bad secret''], st)
       \<and> describe_operation self parameters (PStr s) st =
           (Inr (Some [''success'' \<mapsto> PBool False, ''reason'' \<mapsto> PStr ''bad secret'']), st)
       \<and> attach_disk self parameters disk_name instance_id (PStr s) st =
           (Inr [''success'' \<mapsto> PBool False, ''reason'' \<mapsto> PStr ''bad secret''], st)"
proof -
  obtain p where v: "validate_args self parameters (PStr s) = Inr (p, PStr s)"
    using validate_args_well_formed[OF assms(1)] by blast
  have n: "secret self \<noteq> s"
    using assms(2) by blast
  show ?thesis
    by (simp add: run_instances_def terminate_instances_def describe_operation_def
        attach_disk_def v n generate_response_def REASON_BAD_SECRET_def)
qed

theorem bad_secret_rejected_witness:
  "run_instances (test_manager False good_agent) (test_parameters ''2'') (PStr ''guess'')
     ''op1'' test_sys =
     (Inr [''success'' \<mapsto> PBool False, ''reason'' \<mapsto> PStr ''bad secret''], test_sys)
   \<and> terminate_instances (test_manager False good_agent) (PStr ''{}'') (PStr ''guess'')
     ''op1'' test_sys =
     (Inr [''success'' \<mapsto> PBool False, ''reason'' \<mapsto> PStr ''bad secret''], test_sys)
   \<and> describe_operation (test_manager False good_agent) (test_parameters ''2'') (PStr ''guess'')
     test_sys =
     (Inr (Some [''success'' \<mapsto> PBool False, ''reason'' \<mapsto> PStr ''bad secret'']), test_sys)
   \<and> attach_disk (test_manager False good_agent) (PStr ''{}'') (PStr ''disk'') (PStr ''i-1'')
     (PStr ''guess'') test_sys =
     (Inr [''success'' \<mapsto> PBool False, ''reason'' \<mapsto> PStr ''bad secret''], test_sys)"
proof -
  have d: "is_dict (test_parameters ''2'') \<or>
      (\<exists>j d. test_parameters ''2'' = PStr j \<and>
         json_loads (test_manager False good_agent) j = Inr d \<and> is_dict d)"
    by (simp add: test_parameters_def)
  have j: "is_dict (PStr ''{}'') \<or>
      (\<exists>j d. PStr ''{}'' = PStr j \<and>
         json_loads (test_manager False good_agent) j = Inr d \<and> is_dict d)"
    by (simp add: test_manager_def)
  have n: "''guess'' \<noteq> secret (test_manager False good_agent)"
    by (simp add: test_manager_def)
  from bad_secret_rejected[OF d n, of "''op1''" test_sys]
    bad_secret_rejected[OF j n, of "''op1''" test_sys "PStr ''disk''" "PStr ''i-1''"]
  show ?thesis
    by blast
qed

text \<open>
  The exceptions of \<open>int()\<close>: \<open>ValueError\<close> for a string that is no integer literal
  and for a NaN, \<open>OverflowError\<close> for an infinity, \<open>TypeError\<close> for an object that is
  neither a number nor a string.
\<close>

lemma int_of_str_raises: "int_of_str s = Inl e \<Longrightarrow> \<exists>m. e = ValueError m"
  by (auto simp add: int_of_str_def split: option.splits)

lemma int_of_float_raises:
  "int_of_float f = Inl e \<Longrightarrow> (\<exists>m. e = ValueError m) \<or> (\<exists>m. e = OverflowError m)"
  by (cases f) (auto split: if_splits)

lemma py_int_raises:
  "py_int v = Inl e \<Longrightarrow>
     (\<exists>m. e = ValueError m) \<or> (\<exists>m. e = TypeError m) \<or> (\<exists>m. e = OverflowError m)"
  using int_of_str_raises[of _ e] int_of_float_raises[of _ e]
  by (cases v) auto

text \<open>
  C5, as the code has it. With a matching secret and both required parameters present,
  a \<open>num_vms\<close> that \<open>int()\<close> converts to a number that is not positive is answered with
  the response \<open>{'success': False, 'reason': 'bad vm count'}\<close>; a \<open>num_vms\<close> that
  \<open>int()\<close> rejects makes the call raise the exception of \<open>int()\<close>, which is a
  \<open>ValueError\<close>, a \<open>TypeError\<close> or an \<open>OverflowError\<close>. The store, the backend
  and the threads are as they were in both cases.
\<close>

theorem bad_vm_count:
  assumes "validate_args self parameters secret' = Inr (p, PStr (secret self))"
    and "first_missing self RUN_INSTANCES_REQUIRED_PARAMS p = Inr None"
    and "py_getitem p PARAM_NUM_VMS = Inr v"
  shows "(\<forall>n. py_int v = Inr n \<longrightarrow> n \<le> 0 \<longrightarrow>
            run_instances self parameters secret' operation_id st =
              (Inr [''success'' \<mapsto> PBool False, ''reason'' \<mapsto> PStr ''bad vm count''], st))
       \<and> (\<forall>e. py_int v = Inl e \<longrightarrow>
            run_instances self parameters secret' operation_id st = (Inl e, st)
            \<and> ((\<exists>m. e = ValueError m) \<or> (\<exists>m. e = TypeError m)
                 \<or> (\<exists>m. e = OverflowError m)))"
proof (intro conjI allI impI)
  fix n
  assume "py_int v = Inr n" and "n \<le> 0"
  with assms
  show "run_instances self parameters secret' operation_id st =
      (Inr [''success'' \<mapsto> PBool False, ''reason'' \<mapsto> PStr ''bad vm count''], st)"
    by (simp add: run_instances_def generate_response_def REASON_BAD_VM_COUNT_def)
next
  fix e
  assume "py_int v = Inl e"
  with assms
  show "run_instances self parameters secret' operation_id st = (Inl e, st)"
    by (simp add: run_instances_def)
next
  fix e
  assume "py_int v = Inl e"
  then show "(\<exists>m. e = ValueError m) \<or> (\<exists>m. e = TypeError m) \<or> (\<exists>m. e = OverflowError m)"
    by (rule py_int_raises)
qed

text \<open>
  The claim itself fails where \<open>num_vms\<close> is no number: the call raises \<open>ValueError\<close>
  and returns no response. An infinite float makes it raise \<open>OverflowError\<close>.
\<close>

theorem bad_vm_count_counterexample:
  "run_instances (test_manager False good_agent) (test_parameters ''abc'') (PStr ''s3cr3t'')
     ''op1'' test_sys =
     (Inl (ValueError ''invalid literal for int() with base 10''), test_sys)
   \<and> run_instances (test_manager False good_agent) (PDict [(''infrastructure'', PStr ''test''),
        (''num_vms'', PFloat PosInf)]) (PStr ''s3cr3t'') ''op1'' test_sys =
     (Inl (OverflowError ''cannot convert float infinity to integer''), test_sys)"
  by (simp add: api_defs test_defs int_of_str_abc)

theorem bad_vm_count_witness:
  "run_instances (test_manager False good_agent) (test_parameters ''0'') (PStr ''s3cr3t'')
     ''op1'' test_sys =
     (Inr [''success'' \<mapsto> PBool False, ''reason'' \<mapsto> PStr ''bad vm count''], test_sys)
   \<and> run_instances (test_manager False good_agent) (PDict [(''infrastructure'', PStr ''test''),
        (''num_vms'', PNone)]) (PStr ''s3cr3t'') ''op1'' test_sys =
     (Inl (TypeError ''int() argument must be a string or a number''), test_sys)
   \<and> run_instances (test_manager False good_agent) (PDict [(''infrastructure'', PStr ''test''),
        (''num_vms'', PFloat NegInf)]) (PStr ''s3cr3t'') ''op1'' test_sys =
     (Inl (OverflowError ''cannot convert float infinity to integer''), test_sys)"
proof -
  let ?m = "test_manager False good_agent"
  let ?q = "PDict [(''infrastructure'', PStr ''test''), (''num_vms'', PNone)]"
  let ?r = "PDict [(''infrastructure'', PStr ''test''), (''num_vms'', PFloat NegInf)]"
  have v0: "validate_args ?m (test_parameters ''0'') (PStr ''s3cr3t'') =
      Inr (test_parameters ''0'', PStr (secret ?m))"
    by (simp add: validate_args_def test_defs)
  have m0: "first_missing ?m RUN_INSTANCES_REQUIRED_PARAMS (test_parameters ''0'') = Inr None"
    by (simp add: api_defs test_defs)
  have g0: "py_getitem (test_parameters ''0'') PARAM_NUM_VMS = Inr (PStr ''0'')"
    by (simp add: api_defs test_defs)
  have i0: "py_int (PStr ''0'') = Inr 0"
    by (simp add: int_of_str_0)
  have v1: "validate_args ?m ?q (PStr ''s3cr3t'') = Inr (?q, PStr (secret ?m))"
    by (simp add: validate_args_def test_defs)
  have m1: "first_missing ?m RUN_INSTANCES_REQUIRED_PARAMS ?q = Inr None"
    by (simp add: api_defs test_defs)
  have g1: "py_getitem ?q PARAM_NUM_VMS = Inr PNone"
    by (simp add: api_defs)
  have i1: "py_int PNone = Inl (TypeError ''int() argument must be a string or a number'')"
    by simp
  have v2: "validate_args ?m ?r (PStr ''s3cr3t'') = Inr (?r, PStr (secret ?m))"
    by (simp add: validate_args_def test_defs)
  have m2: "first_missing ?m RUN_INSTANCES_REQUIRED_PARAMS ?r = Inr None"
    by (simp add: api_defs test_defs)
  have g2: "py_getitem ?r PARAM_NUM_VMS = Inr (PFloat NegInf)"
    by (simp add: api_defs)
  have i2: "py_int (PFloat NegInf) =
      Inl (OverflowError ''cannot convert float infinity to integer'')"
    by simp
  from bad_vm_count[OF v0 m0 g0, of "''op1''" test_sys] i0
    bad_vm_count[OF v1 m1 g1, of "''op1''" test_sys] i1
    bad_vm_count[OF v2 m2 g2, of "''op1''" test_sys] i2
  show ?thesis
    by simp
qed

lemma describe_operation_state:
  "snd (describe_operation self parameters secret' st) = st"
  by (simp add: describe_operation_def split: sum.split prod.split option.split)

lemma describe_operation_store:
  "fst (describe_operation self parameters secret' (st\<lparr>backend := b, threads := ts\<rparr>)) =
   fst (describe_operation self parameters secret' st)"
  by (simp add: describe_operation_def split: sum.split prod.split option.split)

text \<open>
  C9. \<open>describe_operation\<close> leaves the store, the backend and the threads as they were;
  a second call with the same arguments returns what the first returned; and what it
  returns depends on the store only, not on what the backend or the threads are.
\<close>

theorem describe_operation_read_only:
  "snd (describe_operation self parameters secret' st) = st
   \<and> describe_operation self parameters secret'
        (snd (describe_operation self parameters secret' st)) =
      describe_operation self parameters secret' st
   \<and> fst (describe_operation self parameters secret' (st\<lparr>backend := b, threads := ts\<rparr>)) =
      fst (describe_operation self parameters secret' st)"
  by (simp add: describe_operation_state describe_operation_store)

theorem describe_operation_read_only_witness:
  "describe_operation (test_manager False good_agent) (PDict [(''operation_id'', PStr ''op1'')])
     (PStr ''s3cr3t'') (test_sys\<lparr>operation_ids := [''op1'' \<mapsto> pending_run]\<rparr>) =
     (Inr (Some pending_run), test_sys\<lparr>operation_ids := [''op1'' \<mapsto> pending_run]\<rparr>)
   \<and> describe_operation (test_manager False good_agent) (PDict [(''operation_id'', PStr ''op1'')])
     (PStr ''s3cr3t'')
     (snd (describe_operation (test_manager False good_agent)
        (PDict [(''operation_id'', PStr ''op1'')]) (PStr ''s3cr3t'')
        (test_sys\<lparr>operation_ids := [''op1'' \<mapsto> pending_run]\<rparr>))) =
     (Inr (Some pending_run), test_sys\<lparr>operation_ids := [''op1'' \<mapsto> pending_run]\<rparr>)
   \<and> describe_operation (test_manager False good_agent) (PDict [(''operation_id'', PStr ''op2'')])
     (PStr ''s3cr3t'')
     (snd (describe_operation (test_manager False good_agent)
        (PDict [(''operation_id'', PStr ''op2'')]) (PStr ''s3cr3t'')
        (test_sys\<lparr>operation_ids := [''op1'' \<mapsto> pending_run]\<rparr>))) =
     (Inr (Some [''success'' \<mapsto> PBool False, ''reason'' \<mapsto> PStr ''operation_id not found'']),
      test_sys\<lparr>operation_ids := [''op1'' \<mapsto> pending_run]\<rparr>)"
proof -
  let ?m = "test_manager False good_agent"
  let ?st = "test_sys\<lparr>operation_ids := [''op1'' \<mapsto> pending_run]\<rparr>"
  have f: "describe_operation ?m (PDict [(''operation_id'', PStr ''op1'')]) (PStr ''s3cr3t'') ?st =
      (Inr (Some pending_run), ?st)"
    by (simp add: api_defs test_manager_def get_def has_key_def)
  have n: "describe_operation ?m (PDict [(''operation_id'', PStr ''op2'')]) (PStr ''s3cr3t'') ?st =
      (Inr (Some [''success'' \<mapsto> PBool False, ''reason'' \<mapsto> PStr ''operation_id not found'']),
       ?st)"
    by (simp add: api_defs test_manager_def get_def has_key_def)
  from describe_operation_read_only[of ?m "PDict [(''operation_id'', PStr ''op1'')]"
      "PStr ''s3cr3t''" ?st]
    describe_operation_read_only[of ?m "PDict [(''operation_id'', PStr ''op2'')]"
      "PStr ''s3cr3t''" ?st] f n
  show ?thesis
    by simp
qed








section \<open>Properties of runs\<close>

subsection \<open>The one write of a worker\<close>










subsection \<open>What a call changes\<close>










subsection \<open>The invariant of runs\<close>

lemma pending_not_terminal: "is_pending r \<Longrightarrow> \<not> is_terminal r"
  by (simp add: is_pending_def is_terminal_def STATE_PENDING_def STATE_SUCCESS_def
      STATE_FAILED_def)





subsection \<open>What a thread changes\<close>





subsection \<open>Steps and runs\<close>











end
